theory Spec2Isabelle
  imports Complex_Main
begin

section \<open>Numbers\<close>

text \<open>
  The arrays of \<^verbatim>\<open>agents.py\<close> hold IEEE floating-point numbers. The model keeps the
  special values that decide the behaviour of the program on degenerate inputs
  (the infinities and NaN) and idealises every finite value as a real number: rounding,
  overflow of finite values and the sign of zero are not modelled.
  Rewards, discount factors, learning rates and the logits a network returns are finite
  and are modelled as \<^typ>\<open>real\<close>.
\<close>

datatype fl = Fin real | PInf | NInf | NaN

instantiation fl :: "{zero,one,plus,uminus,minus,times,inverse}"
begin

definition zero_fl :: fl where "zero_fl = Fin 0"

definition one_fl :: fl where "one_fl = Fin 1"

fun plus_fl :: "fl \<Rightarrow> fl \<Rightarrow> fl" where
  "plus_fl NaN y = NaN"
| "plus_fl x NaN = NaN"
| "plus_fl (Fin a) (Fin b) = Fin (a + b)"
| "plus_fl PInf NInf = NaN"
| "plus_fl NInf PInf = NaN"
| "plus_fl PInf y = PInf"
| "plus_fl x PInf = PInf"
| "plus_fl NInf y = NInf"
| "plus_fl x NInf = NInf"

fun uminus_fl :: "fl \<Rightarrow> fl" where
  "uminus_fl (Fin a) = Fin (- a)"
| "uminus_fl PInf = NInf"
| "uminus_fl NInf = PInf"
| "uminus_fl NaN = NaN"

definition minus_fl :: "fl \<Rightarrow> fl \<Rightarrow> fl" where
  "minus_fl x y = x + (- y)"

fun times_fl :: "fl \<Rightarrow> fl \<Rightarrow> fl" where
  "times_fl NaN y = NaN"
| "times_fl x NaN = NaN"
| "times_fl (Fin a) (Fin b) = Fin (a * b)"
| "times_fl PInf (Fin b) = (if b = 0 then NaN else if 0 < b then PInf else NInf)"
| "times_fl NInf (Fin b) = (if b = 0 then NaN else if 0 < b then NInf else PInf)"
| "times_fl (Fin a) PInf = (if a = 0 then NaN else if 0 < a then PInf else NInf)"
| "times_fl (Fin a) NInf = (if a = 0 then NaN else if 0 < a then NInf else PInf)"
| "times_fl PInf PInf = PInf"
| "times_fl PInf NInf = NInf"
| "times_fl NInf PInf = NInf"
| "times_fl NInf NInf = PInf"

fun divide_fl :: "fl \<Rightarrow> fl \<Rightarrow> fl" where
  "divide_fl NaN y = NaN"
| "divide_fl x NaN = NaN"
| "divide_fl (Fin a) (Fin b) =
     (if b = 0 then (if a = 0 then NaN else if 0 < a then PInf else NInf) else Fin (a / b))"
| "divide_fl (Fin a) PInf = Fin 0"
| "divide_fl (Fin a) NInf = Fin 0"
| "divide_fl PInf (Fin b) = (if 0 \<le> b then PInf else NInf)"
| "divide_fl NInf (Fin b) = (if 0 \<le> b then NInf else PInf)"
| "divide_fl x y = NaN"

definition inverse_fl :: "fl \<Rightarrow> fl" where
  "inverse_fl x = divide (Fin 1) x"

instance ..

end

text \<open>\<^verbatim>\<open>jnp.exp\<close> and \<^verbatim>\<open>jnp.log\<close>.\<close>

fun fl_exp :: "fl \<Rightarrow> fl" where
  "fl_exp (Fin a) = Fin (exp a)"
| "fl_exp PInf = PInf"
| "fl_exp NInf = Fin 0"
| "fl_exp NaN = NaN"

fun fl_log :: "fl \<Rightarrow> fl" where
  "fl_log (Fin a) = (if 0 < a then Fin (ln a) else if a = 0 then NInf else NaN)"
| "fl_log PInf = PInf"
| "fl_log NInf = NaN"
| "fl_log NaN = NaN"

text \<open>\<^verbatim>\<open>jnp.sum\<close> and \<^verbatim>\<open>jnp.mean\<close> over all the elements of a one-dimensional array.
  The mean of an empty array is \<open>0 / 0\<close>, that is NaN.\<close>

fun fl_sum :: "fl list \<Rightarrow> fl" where
  "fl_sum [] = Fin 0"
| "fl_sum (x # xs) = x + fl_sum xs"

definition fl_mean :: "fl list \<Rightarrow> fl" where
  "fl_mean xs = fl_sum xs / Fin (real (length xs))"

section \<open>Data\<close>

text \<open>
  Modelled from the spec: \<^verbatim>\<open>Transition\<close> is imported from \<^verbatim>\<open>utils\<close>, which is not among
  the sources. It is a batch of trajectory steps, a structure of arrays that share their
  leading dimension: the observations, the chosen action identifiers, the valid-action
  masks (one row per step), the rewards, the episode-termination indicators and the next
  observations. The field \<^verbatim>\<open>done\<close> is named \<open>done_flag\<close> here. Observations are kept
  abstract (\<^typ>\<open>'o\<close>): the program only hands them to a network.
\<close>

record 'o Transition =
  observation :: "'o list"
  action :: "nat list"
  action_mask :: "bool list list"
  reward :: "real list"
  done_flag :: "bool list"
  next_observation :: "'o list"

record ('p, 's) NetworkState =
  model_parameters :: 'p
  optimizer_state :: 's

record ('p, 's) PolicyState =
  actor_network_state :: "('p, 's) NetworkState"

type_synonym LogDict = "string \<rightharpoonup> fl"

section \<open>ReinforcePolicy.compute\_discounted\_returns\<close>

text \<open>
  The loop \<^verbatim>\<open>for i in range(rewards.shape[0] - 1, -1, -1)\<close>: the counter of
  \<open>returns_loop\<close> is the number of indices still to visit, so that \<open>Suc i\<close> visits
  index \<open>i\<close>. Each pass computes the running return and stores it at index \<open>i\<close>
  (\<^verbatim>\<open>discounted_returns.at[i].set(running_return)\<close>).
\<close>

fun returns_loop :: "real list \<Rightarrow> bool list \<Rightarrow> real \<Rightarrow> nat \<Rightarrow> real \<Rightarrow> real list \<Rightarrow> real list" where
  "returns_loop rewards dones discount_factor 0 running_return discounted_returns =
     discounted_returns"
| "returns_loop rewards dones discount_factor (Suc i) running_return discounted_returns =
     (let running_return' =
            rewards ! i + discount_factor * running_return * (1 - of_bool (dones ! i))
      in returns_loop rewards dones discount_factor i running_return'
           (discounted_returns[i := running_return']))"

definition compute_discounted_returns :: "'o Transition \<Rightarrow> real \<Rightarrow> real list" where
  "compute_discounted_returns transitions discount_factor =
     (let rewards = reward transitions;
          dones = done_flag transitions
      in returns_loop rewards dones discount_factor (length rewards) 0
           (replicate (length rewards) 0))"

section \<open>Network\<close>

text \<open>
  The network architectures are outside the sources: a model is a function from its
  parameters and one unbatched input to its output array, of shape \<open>[4]\<close> for an actor
  and \<open>[1]\<close> for a critic (docstring of \<^verbatim>\<open>Network.get_logits\<close>). The models are
  parameters of every definition that evaluates them.
\<close>

type_synonym ('p, 'o) model = "'p \<Rightarrow> 'o \<Rightarrow> real list"

definition get_logits :: "('p, 'o) model \<Rightarrow> 'p \<Rightarrow> 'o \<Rightarrow> real list" where
  "get_logits model params model_input = model params model_input"

definition get_batch_logits :: "('p, 'o) model \<Rightarrow> 'p \<Rightarrow> 'o list \<Rightarrow> real list list" where
  "get_batch_logits model params model_inputs = map (get_logits model params) model_inputs"

text \<open>
  \<^verbatim>\<open>optax.schedules.exponential_decay(init_value, transition_steps, decay_rate,
  transition_begin=0, staircase=False, end_value=None)\<close> is a function of the optax
  library; it is written out here from that library, with \<open>staircase\<close> left at its
  default. It returns the schedule, a function of the step count.
\<close>

definition exponential_decay ::
  "real \<Rightarrow> int \<Rightarrow> real \<Rightarrow> real \<Rightarrow> real option \<Rightarrow> nat \<Rightarrow> real" where
  "exponential_decay init_value transition_steps decay_rate transition_begin end_value count =
     (if transition_steps \<le> 0 then init_value
      else if decay_rate = 0 then init_value
      else
        let begin_step = (if transition_begin < 0 then 0 else transition_begin);
            decreased_count = real count - begin_step;
            p = decreased_count / real_of_int transition_steps;
            decayed_value =
              (if decreased_count \<le> 0 then init_value else init_value * decay_rate powr p)
        in case end_value of
             None \<Rightarrow> decayed_value
           | Some e \<Rightarrow> (if decay_rate < 1 then max decayed_value e else min decayed_value e))"

text \<open>
  The learning rate built by \<^verbatim>\<open>Network.__init__\<close>, as a function of the number of
  gradient steps taken. The four arguments of the call are positional, in the order of
  the source: \<^verbatim>\<open>exponential_decay(learning_rate, lr_decay, min(learning_rate, 1e-5), 0.5)\<close>.
\<close>

definition learning_rate_scheduler :: "real \<Rightarrow> int option \<Rightarrow> nat \<Rightarrow> real" where
  "learning_rate_scheduler learning_rate lr_decay =
     (case lr_decay of
        None \<Rightarrow> (\<lambda>count. learning_rate)
      | Some steps \<Rightarrow>
          exponential_decay learning_rate steps (min learning_rate (1 / 100000)) (1 / 2) None)"

text \<open>
  The schedule in the words of the specification and of the docstring of
  \<^verbatim>\<open>Network.__init__\<close>: the rate is halved every \<open>lr_decay\<close> steps and floored at the
  smaller of the nominal rate and \<open>1e-5\<close>.
\<close>

definition specified_learning_rate :: "real \<Rightarrow> int option \<Rightarrow> nat \<Rightarrow> real" where
  "specified_learning_rate learning_rate lr_decay =
     (case lr_decay of
        None \<Rightarrow> (\<lambda>count. learning_rate)
      | Some steps \<Rightarrow>
          exponential_decay learning_rate steps (1 / 2) 0 (Some (min learning_rate (1 / 100000))))"

section \<open>Masked action probabilities\<close>

text \<open>
  The three array operations of \<open>get_action_probabilities\<close> on one row (an array of
  shape \<open>[4]\<close>): \<^verbatim>\<open>jnp.where(action_mask, logits, -jnp.inf)\<close>,
  \<^verbatim>\<open>jax.nn.softmax\<close> and \<^verbatim>\<open>jnp.where(action_mask, action_probabilities, 0)\<close>.
  The softmax is a library function, written out from its definition
  \<open>exp x\<^sub>i / \<Sum>\<^sub>j exp x\<^sub>j\<close>; on a row of \<open>-inf\<close> only it is \<open>0 / 0\<close>, NaN in every
  entry, as in the library.
\<close>

definition where_neg_inf_row :: "bool list \<Rightarrow> real list \<Rightarrow> fl list" where
  "where_neg_inf_row valid logits = map2 (\<lambda>m l. if m then Fin l else NInf) valid logits"

definition softmax_row :: "fl list \<Rightarrow> fl list" where
  "softmax_row x = (let unnormalized = map fl_exp x
                    in map (\<lambda>u. u / fl_sum unnormalized) unnormalized)"

definition where_zero_row :: "bool list \<Rightarrow> fl list \<Rightarrow> fl list" where
  "where_zero_row valid probabilities = map2 (\<lambda>m p. if m then p else Fin 0) valid probabilities"

definition masked_probabilities :: "bool list \<Rightarrow> real list \<Rightarrow> fl list" where
  "masked_probabilities valid logits =
     (let masked_logits = where_neg_inf_row valid logits;
          action_probabilities = softmax_row masked_logits
      in where_zero_row valid action_probabilities)"

section \<open>Policy\<close>

datatype error = IndexError

text \<open>
  \<open>Policy.sample_action\<close>. The abstract method \<open>get_action_probabilities\<close> is the
  parameter \<open>probabilities\<close>, the sampler \<^verbatim>\<open>jax.random.choice\<close> is the parameter
  \<open>choice\<close>: it receives the key, the number of actions and the vector \<open>p\<close>, and
  returns an index. The source has no check and no raise.
\<close>

definition renormalize :: "fl list \<Rightarrow> bool list \<Rightarrow> fl list" where
  "renormalize action_probs valid =
     (let masked_probs = map2 (\<lambda>p m. p * Fin (of_bool m)) action_probs valid
      in map (\<lambda>p. p / fl_sum masked_probs) masked_probs)"

definition sample_action ::
  "('k \<Rightarrow> nat \<Rightarrow> fl list \<Rightarrow> nat) \<Rightarrow> ('p \<Rightarrow> 'o \<Rightarrow> bool list \<Rightarrow> fl list) \<Rightarrow>
   'k \<Rightarrow> ('p, 's) PolicyState \<Rightarrow> 'o \<Rightarrow> bool list \<Rightarrow> nat" where
  "sample_action choice probabilities key policy_state obs valid =
     (let action_probs =
            probabilities (model_parameters (actor_network_state policy_state)) obs valid;
          masked_probs = renormalize action_probs valid
      in choice key (length action_probs) masked_probs)"

text \<open>
  \<open>Policy.actions_to_probabilities\<close>: \<^verbatim>\<open>jax.vmap\<close> evaluates
  \<open>get_action_probabilities\<close> on every row, on the row's own observation and mask, and
  \<^verbatim>\<open>take_along_axis\<close> selects the entry of the row's action.
\<close>

definition actions_to_probabilities ::
  "('p \<Rightarrow> 'o \<Rightarrow> bool list \<Rightarrow> fl list) \<Rightarrow> 'p \<Rightarrow> 'o list \<Rightarrow> nat list \<Rightarrow> bool list list \<Rightarrow> fl list" where
  "actions_to_probabilities probabilities params observations actions action_masks =
     (let all_probabilities = map2 (probabilities params) observations action_masks
      in map2 (\<lambda>row a. row ! a) all_probabilities actions)"

section \<open>RandomPolicy\<close>

definition RandomPolicy_get_action_probabilities :: "'p \<Rightarrow> 'o \<Rightarrow> bool list \<Rightarrow> fl list" where
  "RandomPolicy_get_action_probabilities params obs valid =
     map (\<lambda>m. Fin (of_bool m) / fl_sum (map (\<lambda>m. Fin (of_bool m)) valid)) valid"

definition RandomPolicy_compute_loss :: "'p \<Rightarrow> 'o Transition \<Rightarrow> fl \<times> LogDict" where
  "RandomPolicy_compute_loss parameters transitions = (Fin 0, Map.empty)"

definition RandomPolicy_update ::
  "('p, 's) PolicyState \<Rightarrow> 'o Transition \<Rightarrow> ('p, 's) PolicyState" where
  "RandomPolicy_update state transitions = state"

section \<open>ReinforcePolicy\<close>

text \<open>
  The argument \<open>observation\<close> of \<open>ReinforcePolicy.get_action_probabilities\<close> is either
  one observation (three dimensions) or a batch of observations (four dimensions), and
  its argument \<open>action_mask\<close> is one row or a batch of rows. An array of one or two
  dimensions is written \<open>Arr1\<close> or \<open>Arr2\<close>.
\<close>

datatype 'o obs_arg = Unbatched 'o | Batched "'o list"

datatype 'a arr = Arr1 "'a list" | Arr2 "'a list list"

text \<open>
  \<^verbatim>\<open>if observation.ndim == 4: observation = observation[0]\<close> selects the first
  observation of a batch; JAX raises an \<^verbatim>\<open>IndexError\<close> when the batch axis has size 0.
  The logits of that one observation are then combined with the mask: against a batch of
  rows, \<^verbatim>\<open>jnp.where\<close> broadcasts the one vector of logits to every row, and the softmax
  runs along the last axis, that is row by row.
\<close>

definition Reinforce_get_action_probabilities ::
  "('p, 'o) model \<Rightarrow> 'p \<Rightarrow> 'o obs_arg \<Rightarrow> bool arr \<Rightarrow> error + fl arr" where
  "Reinforce_get_action_probabilities actor params obs valid =
     (case (case obs of
              Unbatched ob \<Rightarrow> Inr ob
            | Batched [] \<Rightarrow> Inl IndexError
            | Batched (ob # rest) \<Rightarrow> Inr ob) of
        Inl e \<Rightarrow> Inl e
      | Inr ob \<Rightarrow>
          let logits = get_logits actor params ob
          in Inr (case valid of
                    Arr1 row \<Rightarrow> Arr1 (masked_probabilities row logits)
                  | Arr2 rows \<Rightarrow> Arr2 (map (\<lambda>row. masked_probabilities row logits) rows)))"

text \<open>
  \<open>ReinforcePolicy.compute_loss\<close>. The whole batch of observations and the whole batch
  of masks go to \<open>get_action_probabilities\<close> in one call;
  \<^verbatim>\<open>action_log_probs[jnp.arange(n), transitions.action]\<close> then selects in every row the
  entry of the row's action (on an array of one dimension the two indices are an
  \<^verbatim>\<open>IndexError\<close>).
\<close>

definition Reinforce_compute_loss ::
  "('p, 'o) model \<Rightarrow> real \<Rightarrow> 'p \<Rightarrow> 'o Transition \<Rightarrow> error + fl \<times> LogDict" where
  "Reinforce_compute_loss actor discount_factor params transitions =
     (let discounted_returns = compute_discounted_returns transitions discount_factor
      in case Reinforce_get_action_probabilities actor params
                (Batched (observation transitions)) (Arr2 (action_mask transitions)) of
           Inl e \<Rightarrow> Inl e
         | Inr (Arr1 row) \<Rightarrow> Inl IndexError
         | Inr (Arr2 action_probs) \<Rightarrow>
             let action_log_probs = map (map fl_log) action_probs;
                 action_log_probs = map2 (\<lambda>row a. row ! a) action_log_probs (action transitions);
                 loss = - fl_mean (map2 (\<lambda>g l. Fin g * l) discounted_returns action_log_probs)
             in Inr (loss, [''Actor loss'' \<mapsto> loss]))"

text \<open>
  The loss in the words of the specification: the negative mean of
  \<open>G[i] * log(pi(a_i | s_i))\<close>, the probability of row \<open>i\<close> coming from row \<open>i\<close>'s own
  observation and mask, as \<open>actions_to_probabilities\<close> selects it.
\<close>

definition specified_Reinforce_loss ::
  "('p, 'o) model \<Rightarrow> real \<Rightarrow> 'p \<Rightarrow> 'o Transition \<Rightarrow> fl" where
  "specified_Reinforce_loss actor discount_factor params transitions =
     (let discounted_returns = compute_discounted_returns transitions discount_factor;
          action_probs =
            actions_to_probabilities
              (\<lambda>p ob row. masked_probabilities row (get_logits actor p ob))
              params (observation transitions) (action transitions) (action_mask transitions)
      in - fl_mean (map2 (\<lambda>g p. Fin g * fl_log p) discounted_returns action_probs))"

section \<open>BaseActorCriticPolicy and ActorCriticPolicy\<close>

text \<open>\<open>BaseActorCriticPolicy.get_action_probabilities\<close> has no test of the number of
  dimensions; the program calls it on one observation and one row of the mask.\<close>

definition BaseActorCritic_get_action_probabilities ::
  "('p, 'o) model \<Rightarrow> 'p \<Rightarrow> 'o \<Rightarrow> bool list \<Rightarrow> fl list" where
  "BaseActorCritic_get_action_probabilities actor params obs valid =
     (let logits = get_logits actor params obs
      in masked_probabilities valid logits)"

text \<open>
  Array broadcasting on the last axis: two rows of the same length are combined entry by
  entry, and a row of length 1 is stretched along the other row. JAX rejects rows of
  different lengths greater than 1; the program never builds such a pair from a critic
  whose output has shape \<open>[1]\<close>, and the last branch is not a model of that rejection.
\<close>

definition broadcast :: "('a \<Rightarrow> 'b \<Rightarrow> 'c) \<Rightarrow> 'a list \<Rightarrow> 'b list \<Rightarrow> 'c list" where
  "broadcast f xs ys =
     (if length xs = 1 then map (f (hd xs)) ys
      else if length ys = 1 then map (\<lambda>x. f x (hd ys)) xs
      else map2 f xs ys)"

text \<open>
  \<open>ActorCriticPolicy.compute_loss\<close>. \<open>get_batch_logits\<close> stacks the critic's outputs:
  \<open>predicted_values\<close> and \<open>next_values\<close> have shape \<open>[batch_size, 1]\<close>, one row per
  transition, while \<open>rewards\<close> and \<open>dones\<close> have shape \<open>[batch_size]\<close>. An array of two
  dimensions combined with an array of one dimension combines each of its rows with that
  array; two arrays of two dimensions are combined row by row. \<^verbatim>\<open>stop_gradient\<close> is the
  identity on values. \<^verbatim>\<open>jnp.mean\<close> runs over all the entries of its argument. The bootstrap
  term \<open>discount_factor * next_values * (1 - dones)\<close> is written once, \<open>bootstrap\<close>, for
  both advantages: the two groupings of the product in the source have the same value.
\<close>

definition ActorCritic_compute_loss ::
  "('p, 'o) model \<Rightarrow> ('q, 'o) model \<Rightarrow> real \<Rightarrow> 'p \<times> 'q \<Rightarrow> 'o Transition \<Rightarrow> fl \<times> LogDict" where
  "ActorCritic_compute_loss actor critic discount_factor all_parameters transitions =
     (let actor_parameters = fst all_parameters;
          critic_parameters = snd all_parameters;
          observations = observation transitions;
          actions = action transitions;
          masks = action_mask transitions;
          rewards = reward transitions;
          dones = done_flag transitions;
          predicted_values = get_batch_logits critic critic_parameters observations;
          next_values =
            get_batch_logits critic critic_parameters (next_observation transitions);
          not_done = map (\<lambda>d. 1 - of_bool d) dones;
          bootstrap =
            map (\<lambda>row. map (\<lambda>x. discount_factor * x) (broadcast (*) row not_done)) next_values;
          target = map (\<lambda>row. broadcast (+) rewards row) bootstrap;
          actor_advantage = map2 (broadcast (-)) target predicted_values;
          critic_advantage = map2 (broadcast (-)) predicted_values target;
          action_log_probabilities =
            map (\<lambda>idx. fl_log
                   (BaseActorCritic_get_action_probabilities actor actor_parameters
                      (observations ! idx) (masks ! idx) ! (actions ! idx)))
              [0..<length observations];
          actor_loss =
            - fl_mean (concat (map (\<lambda>row. broadcast (\<lambda>l a. l * Fin a) action_log_probabilities row)
                                 actor_advantage));
          critic_loss =
            Fin (1 / 2) * fl_mean (concat (map (map (\<lambda>x. Fin (x\<^sup>2))) critic_advantage));
          loss = actor_loss + critic_loss
      in (loss, [''Actor loss'' \<mapsto> actor_loss, ''Critic loss'' \<mapsto> critic_loss]))"

text \<open>
  The loss in the words of the specification, with \<open>V(s)\<close> the one entry of the critic's
  output: for every transition the target is
  \<open>reward + discount_factor * V(s') * (1 - done)\<close>, the actor loss is the negative mean
  of \<open>log(pi(a|s)) * (target - V(s))\<close> and the critic loss is half the mean of
  \<open>(V(s) - target)\<^sup>2\<close>. The result is the total, the actor loss and the critic loss.
\<close>

definition specified_ActorCritic_loss ::
  "('p, 'o) model \<Rightarrow> ('q, 'o) model \<Rightarrow> real \<Rightarrow> 'p \<times> 'q \<Rightarrow> 'o Transition \<Rightarrow> fl \<times> fl \<times> fl" where
  "specified_ActorCritic_loss actor critic discount_factor all_parameters transitions =
     (let V = (\<lambda>ob. hd (get_logits critic (snd all_parameters) ob));
          indices = [0..<length (observation transitions)];
          target = (\<lambda>i. reward transitions ! i
                        + discount_factor * V (next_observation transitions ! i)
                          * (1 - of_bool (done_flag transitions ! i)));
          log_probability =
            (\<lambda>i. fl_log (BaseActorCritic_get_action_probabilities actor (fst all_parameters)
                            (observation transitions ! i) (action_mask transitions ! i)
                          ! (action transitions ! i)));
          actor_loss =
            - fl_mean (map (\<lambda>i. log_probability i
                                * Fin (target i - V (observation transitions ! i))) indices);
          critic_loss =
            Fin (1 / 2)
            * fl_mean (map (\<lambda>i. Fin ((V (observation transitions ! i) - target i)\<^sup>2)) indices)
      in (actor_loss + critic_loss, actor_loss, critic_loss))"

section \<open>ReinforceBaselinePolicy\<close>

text \<open>
  \<open>ReinforceBaselinePolicy.compute_loss\<close>. The critic's values have shape
  \<open>[batch_size, 1]\<close> and the returns \<open>G\<close> have shape \<open>[batch_size]\<close>, so the advantage
  \<open>G - stop_gradient(critic_logits)\<close> combines every row of the values with \<open>G\<close>.
\<close>

definition ReinforceBaseline_compute_loss ::
  "('p, 'o) model \<Rightarrow> ('q, 'o) model \<Rightarrow> real \<Rightarrow> 'p \<times> 'q \<Rightarrow> 'o Transition \<Rightarrow> fl \<times> LogDict" where
  "ReinforceBaseline_compute_loss actor critic discount_factor all_parameters transitions =
     (let actor_parameters = fst all_parameters;
          critic_parameters = snd all_parameters;
          observations = observation transitions;
          actions = action transitions;
          masks = action_mask transitions;
          G = compute_discounted_returns transitions discount_factor;
          critic_logits = get_batch_logits critic critic_parameters observations;
          advantage = map (\<lambda>row. broadcast (-) G row) critic_logits;
          action_log_probabilities =
            map (\<lambda>idx. fl_log
                   (BaseActorCritic_get_action_probabilities actor actor_parameters
                      (observations ! idx) (masks ! idx) ! (actions ! idx)))
              [0..<length observations];
          actor_loss =
            - fl_mean (concat (map (\<lambda>row. broadcast (\<lambda>l a. l * Fin a) action_log_probabilities row)
                                 advantage));
          critic_loss = fl_mean (concat (map (map (\<lambda>x. Fin (x\<^sup>2))) advantage));
          loss = actor_loss + critic_loss
      in (loss, [''Actor loss'' \<mapsto> actor_loss, ''Value network loss'' \<mapsto> critic_loss]))"

text \<open>
  The function that \<^verbatim>\<open>jax.value_and_grad\<close> differentiates in \<open>update\<close>.
  \<^verbatim>\<open>jax.lax.stop_gradient\<close> returns its argument and hides it from the differentiation:
  what is computed under it is a constant of the differentiated function. The parameters
  that reach the loss under \<open>stop_gradient\<close> are therefore a separate argument,
  \<open>stopped\<close>; the gradient with respect to the critic is the derivative in the second
  component of \<open>all_parameters\<close> with \<open>stopped\<close> held fixed, taken where \<open>stopped\<close> is
  that component. In the source \<open>critic_logits\<close> is used once, under \<open>stop_gradient\<close>.
\<close>

definition ReinforceBaseline_differentiated_loss ::
  "('p, 'o) model \<Rightarrow> ('q, 'o) model \<Rightarrow> real \<Rightarrow> 'p \<times> 'q \<Rightarrow> 'q \<Rightarrow> 'o Transition \<Rightarrow> fl \<times> LogDict" where
  "ReinforceBaseline_differentiated_loss actor critic discount_factor all_parameters stopped
       transitions =
     (let actor_parameters = fst all_parameters;
          critic_parameters = snd all_parameters;
          observations = observation transitions;
          actions = action transitions;
          masks = action_mask transitions;
          G = compute_discounted_returns transitions discount_factor;
          stopped_critic_logits = get_batch_logits critic stopped observations;
          advantage = map (\<lambda>row. broadcast (-) G row) stopped_critic_logits;
          action_log_probabilities =
            map (\<lambda>idx. fl_log
                   (BaseActorCritic_get_action_probabilities actor actor_parameters
                      (observations ! idx) (masks ! idx) ! (actions ! idx)))
              [0..<length observations];
          actor_loss =
            - fl_mean (concat (map (\<lambda>row. broadcast (\<lambda>l a. l * Fin a) action_log_probabilities row)
                                 advantage));
          critic_loss = fl_mean (concat (map (map (\<lambda>x. Fin (x\<^sup>2))) advantage));
          loss = actor_loss + critic_loss
      in (loss, [''Actor loss'' \<mapsto> actor_loss, ''Value network loss'' \<mapsto> critic_loss]))"

section \<open>Example inputs\<close>

text \<open>The two-episode batch of the specification's testable properties: rewards
  \<open>[1, 1, 0, 2]\<close>, termination indicators \<open>[0, 1, 0, 1]\<close>.\<close>

definition two_episodes :: "unit Transition" where
  "two_episodes = \<lparr> observation = [(), (), (), ()], action = [0, 0, 0, 0],
     action_mask = [[True, True, True, True], [True, True, True, True],
                    [True, True, True, True], [True, True, True, True]],
     reward = [1, 1, 0, 2], done_flag = [False, True, False, True],
     next_observation = [(), (), (), ()] \<rparr>"

section \<open>Auxiliary definitions and further example inputs\<close>

text \<open>The unnormalised weights of one row: \<open>exp\<close> of the logit where the mask allows the
  action, 0 elsewhere.\<close>

definition row_weights :: "bool list \<Rightarrow> real list \<Rightarrow> real list" where
  "row_weights valid logits = map2 (\<lambda>m l. if m then exp l else 0) valid logits"

text \<open>An actor that returns the logits \<open>[0, 0, 0, 0]\<close> for every observation.\<close>

definition one_valid_logits :: "(unit, 'o) model" where
  "one_valid_logits p ob = [0, 0, 0, 0]"

text \<open>A batch of two transitions with two different observations, \<open>0\<close> and \<open>1\<close>, and
  an actor whose logits differ on them: \<open>[0, 0, 0, 0]\<close> on the first and
  \<open>[ln 3, 0, 0, 0]\<close> on the second. Each transition ends an episode with reward 1.\<close>

definition two_observations_actor :: "(unit, nat) model" where
  "two_observations_actor p ob = (if ob = 0 then [0, 0, 0, 0] else [ln 3, 0, 0, 0])"

definition two_observations :: "nat Transition" where
  "two_observations = \<lparr> observation = [0, 1], action = [0, 0],
     action_mask = [[True, True, False, False], [True, True, False, False]],
     reward = [1, 1], done_flag = [True, True],
     next_observation = [1, 0] \<rparr>"

text \<open>The uniform distribution over the valid actions of a row.\<close>

definition uniform_row :: "bool list \<Rightarrow> fl list" where
  "uniform_row valid = map (\<lambda>m. Fin (of_bool m / real (count_list valid True))) valid"

text \<open>A policy state without content, and a sampler that draws index 0 whatever its key
  and its vector of probabilities.\<close>

definition unit_state :: "(unit, unit) PolicyState" where
  "unit_state = \<lparr> actor_network_state = \<lparr> model_parameters = (), optimizer_state = () \<rparr> \<rparr>"

definition first_action :: "unit \<Rightarrow> nat \<Rightarrow> fl list \<Rightarrow> nat" where
  "first_action key n p = 0"

text \<open>The batch without transitions.\<close>

definition empty_batch :: "unit Transition" where
  "empty_batch = \<lparr> observation = [], action = [], action_mask = [], reward = [],
     done_flag = [], next_observation = [] \<rparr>"

text \<open>A batch of two transitions, each ending an episode, with rewards \<open>[1, 0]\<close>, and a
  critic of shape \<open>[1]\<close> that returns \<open>[1]\<close> on the first observation and \<open>[0]\<close> on the
  second: the critic predicts both rewards exactly.\<close>

definition two_values_critic :: "(unit, nat) model" where
  "two_values_critic p ob = (if ob = 0 then [1] else [0])"

definition two_values :: "nat Transition" where
  "two_values = \<lparr> observation = [0, 1], action = [0, 0],
     action_mask = [[True, False, False, False], [True, True, False, False]],
     reward = [1, 0], done_flag = [True, True],
     next_observation = [1, 0] \<rparr>"

section \<open>Properties of the discounted returns\<close>

lemma returns_loop_length:
  "length (returns_loop r d g k run acc) = length acc"
  by (induction k arbitrary: run acc) (simp_all add: Let_def)

lemma returns_loop_keep:
  "k \<le> j \<Longrightarrow> returns_loop r d g k run acc ! j = acc ! j"
  by (induction k arbitrary: run acc) (simp_all add: Let_def)

text \<open>The invariant of the loop: every index already visited holds the reward at that
  index plus the discounted, gated value of its successor, and the successor of the
  last visited index is the running return the loop was entered with.\<close>

lemma returns_loop_step:
  "j < k \<Longrightarrow> k \<le> length acc \<Longrightarrow>
   returns_loop r d g k run acc ! j =
     r ! j + g * (if Suc j < k then returns_loop r d g k run acc ! Suc j else run)
           * (1 - of_bool (d ! j))"
proof (induction k arbitrary: run acc)
  case 0
  then show ?case by simp
next
  case (Suc k)
  let ?run = "r ! k + g * run * (1 - of_bool (d ! k))"
  have unfold: "returns_loop r d g (Suc k) run acc = returns_loop r d g k ?run (acc[k := ?run])"
    by (simp add: Let_def)
  have at_k: "returns_loop r d g k ?run (acc[k := ?run]) ! k = ?run"
    using Suc.prems by (simp add: returns_loop_keep)
  show ?case
  proof (cases "j = k")
    case True
    then show ?thesis using at_k unfold by simp
  next
    case False
    then have "j < k" using Suc.prems by simp
    moreover have "k \<le> length (acc[k := ?run])" using Suc.prems by simp
    ultimately have "returns_loop r d g k ?run (acc[k := ?run]) ! j =
      r ! j + g * (if Suc j < k then returns_loop r d g k ?run (acc[k := ?run]) ! Suc j else ?run)
           * (1 - of_bool (d ! j))"
      by (rule Suc.IH)
    then show ?thesis using at_k unfold \<open>j < k\<close>
      by (cases "Suc j = k") auto
  qed
qed

lemma compute_discounted_returns_length:
  "length (compute_discounted_returns t g) = length (reward t)"
  by (simp add: compute_discounted_returns_def Let_def returns_loop_length)

lemma compute_discounted_returns_nth:
  "i < length (reward t) \<Longrightarrow>
   compute_discounted_returns t g ! i =
     reward t ! i
     + g * (if Suc i < length (reward t) then compute_discounted_returns t g ! Suc i else 0)
         * (1 - of_bool (done_flag t ! i))"
  unfolding compute_discounted_returns_def Let_def
  by (rule returns_loop_step) simp_all

text \<open>
  Claim C1. For a batch whose termination indicators are aligned with its rewards, and
  for every discount factor, \<open>compute_discounted_returns\<close> returns a vector as long as
  the batch with \<open>G[i] = reward[i] + discount_factor * G[i+1] * (1 - done[i])\<close> at
  every index, the return beyond the end of the batch being 0. At an index with
  \<open>done = 1\<close> the return is the reward alone: nothing flows back across the end of an
  episode. On rewards \<open>[1, 1, 0, 2]\<close>, indicators \<open>[0, 1, 0, 1]\<close> and discount
  \<open>1/2\<close> the result is \<open>[3/2, 1, 1, 2]\<close>. The batch may be empty or not.
\<close>

theorem compute_discounted_returns_recurrence:
  assumes "length (done_flag t) = length (reward t)"
  shows "length (compute_discounted_returns t g) = length (reward t)
       \<and> (\<forall>i<length (reward t).
            compute_discounted_returns t g ! i =
              reward t ! i
              + g * (if Suc i < length (reward t)
                     then compute_discounted_returns t g ! Suc i else 0)
                  * (1 - of_bool (done_flag t ! i)))
       \<and> (\<forall>i<length (reward t).
            done_flag t ! i \<longrightarrow> compute_discounted_returns t g ! i = reward t ! i)
       \<and> (reward t = [1, 1, 0, 2] \<and> done_flag t = [False, True, False, True]
            \<longrightarrow> compute_discounted_returns t (1 / 2) = [3 / 2, 1, 1, 2])"
proof (intro conjI allI impI)
  show "length (compute_discounted_returns t g) = length (reward t)"
    by (rule compute_discounted_returns_length)
next
  fix i assume "i < length (reward t)"
  then show "compute_discounted_returns t g ! i =
      reward t ! i
      + g * (if Suc i < length (reward t) then compute_discounted_returns t g ! Suc i else 0)
          * (1 - of_bool (done_flag t ! i))"
    by (rule compute_discounted_returns_nth)
next
  fix i assume "i < length (reward t)" and "done_flag t ! i"
  then show "compute_discounted_returns t g ! i = reward t ! i"
    using compute_discounted_returns_nth [of i t g] by simp
next
  assume "reward t = [1, 1, 0, 2] \<and> done_flag t = [False, True, False, True]"
  then show "compute_discounted_returns t (1 / 2) = [3 / 2, 1, 1, 2]"
    by (simp add: compute_discounted_returns_def Let_def)
qed

theorem compute_discounted_returns_recurrence_witness:
  "length (done_flag two_episodes) = length (reward two_episodes)
   \<and> length (compute_discounted_returns two_episodes (1 / 2)) = 4
   \<and> compute_discounted_returns two_episodes (1 / 2) ! 1 = 1
   \<and> compute_discounted_returns two_episodes (1 / 2) = [3 / 2, 1, 1, 2]"
proof -
  have h: "length (done_flag two_episodes) = length (reward two_episodes)"
    by (simp add: two_episodes_def)
  show ?thesis
    using h compute_discounted_returns_recurrence [OF h, of "1 / 2"]
    by (simp add: two_episodes_def)
qed

section \<open>Properties of the masked action probabilities\<close>

lemma fl_sum_Fin: "fl_sum (map Fin xs) = Fin (sum_list xs)"
  by (induction xs) simp_all

lemma exp_masked: "map fl_exp (where_neg_inf_row valid logits) = map Fin (row_weights valid logits)"
  by (auto simp: where_neg_inf_row_def row_weights_def)

lemma row_weights_nonneg: "0 \<le> sum_list (row_weights valid logits)"
  by (rule sum_list_nonneg) (auto simp: row_weights_def)

lemma row_weights_pos:
  "length valid = length logits \<Longrightarrow> True \<in> set valid \<Longrightarrow> 0 < sum_list (row_weights valid logits)"
proof (induction valid logits rule: list_induct2)
  case Nil
  then show ?case by simp
next
  case (Cons m ms l ls)
  have nn: "0 \<le> sum_list (row_weights ms ls)" by (rule row_weights_nonneg)
  show ?case
  proof (cases m)
    case True
    have "0 < exp l" by simp
    then show ?thesis using True nn by (simp add: row_weights_def add_pos_nonneg)
  next
    case False
    then have "True \<in> set ms" using Cons.prems by auto
    then show ?thesis using False Cons.IH by (simp add: row_weights_def)
  qed
qed

lemma masked_probabilities_eq:
  assumes "length valid = length logits" and "sum_list (row_weights valid logits) \<noteq> 0"
  shows "masked_probabilities valid logits =
         map2 (\<lambda>m l. Fin (if m then exp l / sum_list (row_weights valid logits) else 0)) valid logits"
proof -
  let ?S = "sum_list (row_weights valid logits)"
  have soft: "softmax_row (where_neg_inf_row valid logits) = map (\<lambda>x. Fin (x / ?S)) (row_weights valid logits)"
    using assms(2) by (simp add: softmax_row_def Let_def exp_masked fl_sum_Fin o_def)
  have "where_zero_row valid (map (\<lambda>x. Fin (x / s)) (row_weights valid logits)) =
        map2 (\<lambda>m l. Fin (if m then exp l / s else 0)) valid logits" for s
    using assms(1)
    by (induction valid logits rule: list_induct2) (simp_all add: where_zero_row_def row_weights_def)
  then show ?thesis
    by (simp add: masked_probabilities_def Let_def soft)
qed


lemma fl_sum_divide_const: "fl_sum (map (\<lambda>x. Fin (x / s)) xs) = Fin (sum_list xs / s)"
  by (induction xs) (simp_all add: add_divide_distrib)

lemma masked_probabilities_length:
  "length valid = length logits \<Longrightarrow> length (masked_probabilities valid logits) = length valid"
  by (simp add: masked_probabilities_def where_zero_row_def softmax_row_def where_neg_inf_row_def Let_def)

lemma masked_probabilities_forbidden:
  "length valid = length logits \<Longrightarrow> i < length valid \<Longrightarrow> \<not> valid ! i \<Longrightarrow>
   masked_probabilities valid logits ! i = Fin 0"
  by (simp add: masked_probabilities_def where_zero_row_def softmax_row_def where_neg_inf_row_def Let_def)

lemma valid_entries_sum:
  "length valid = length logits \<Longrightarrow>
   map snd (filter fst (zip valid (map2 (\<lambda>m l. Fin (if m then exp l / s else 0)) valid logits)))
   = map (\<lambda>x. Fin (x / s)) (map snd (filter fst (zip valid (map exp logits))))"
  by (induction valid logits rule: list_induct2) simp_all

lemma row_weights_sum:
  "length valid = length logits \<Longrightarrow>
   sum_list (row_weights valid logits) = sum_list (map snd (filter fst (zip valid (map exp logits))))"
  by (induction valid logits rule: list_induct2) (simp_all add: row_weights_def)


text \<open>
  Claim C4. For one unbatched observation and a mask row as long as the logits with at
  least one valid action, \<open>get_action_probabilities\<close> of \<open>ReinforcePolicy\<close> and of
  \<open>BaseActorCriticPolicy\<close> return the same vector: the disallowed logits set to
  \<open>-inf\<close>, the softmax, the masked entries set to zero again. The vector is as long as
  the mask, it is exactly 0 wherever the mask is 0, and its entries where the mask is 1
  sum to 1 (exactly: finite values are real numbers here, so the tolerance of the
  floating-point sum is not needed).
\<close>

theorem get_action_probabilities_masked:
  assumes "length valid = length (get_logits actor params ob)" and "True \<in> set valid"
  shows "Reinforce_get_action_probabilities actor params (Unbatched ob) (Arr1 valid)
           = Inr (Arr1 (BaseActorCritic_get_action_probabilities actor params ob valid))
       \<and> BaseActorCritic_get_action_probabilities actor params ob valid
           = where_zero_row valid
               (softmax_row (where_neg_inf_row valid (get_logits actor params ob)))
       \<and> length (BaseActorCritic_get_action_probabilities actor params ob valid) = length valid
       \<and> (\<forall>i<length valid. \<not> valid ! i \<longrightarrow>
             BaseActorCritic_get_action_probabilities actor params ob valid ! i = Fin 0)
       \<and> fl_sum (map snd (filter fst
             (zip valid (BaseActorCritic_get_action_probabilities actor params ob valid)))) = Fin 1"
proof -
  let ?logits = "get_logits actor params ob"
  let ?S = "sum_list (row_weights valid ?logits)"
  have pos: "0 < ?S" using assms by (rule row_weights_pos)
  have eq: "masked_probabilities valid ?logits =
            map2 (\<lambda>m l. Fin (if m then exp l / ?S else 0)) valid ?logits"
    using assms(1) pos by (intro masked_probabilities_eq) simp_all
  have "fl_sum (map snd (filter fst (zip valid (masked_probabilities valid ?logits))))
        = Fin (sum_list (map snd (filter fst (zip valid (map exp ?logits)))) / ?S)"
    unfolding eq valid_entries_sum [OF assms(1)]
    by (rule fl_sum_divide_const)
  also have "\<dots> = Fin 1"
    using pos row_weights_sum [OF assms(1)] by simp
  finally have total: "fl_sum (map snd (filter fst (zip valid (masked_probabilities valid ?logits)))) = Fin 1" .
  show ?thesis
    using total assms(1)
    by (simp add: Reinforce_get_action_probabilities_def BaseActorCritic_get_action_probabilities_def
        Let_def masked_probabilities_length masked_probabilities_forbidden)
       (simp add: masked_probabilities_def Let_def)
qed


theorem get_action_probabilities_masked_witness:
  "length [True, False, True, False] = length (get_logits one_valid_logits () ())
   \<and> True \<in> set [True, False, True, False]
   \<and> Reinforce_get_action_probabilities one_valid_logits () (Unbatched ()) (Arr1 [True, False, True, False])
       = Inr (Arr1 [Fin (1 / 2), Fin 0, Fin (1 / 2), Fin 0])
   \<and> fl_sum (map snd (filter fst (zip [True, False, True, False]
        (BaseActorCritic_get_action_probabilities one_valid_logits () () [True, False, True, False]))))
       = Fin 1"
proof -
  have h1: "length [True, False, True, False] = length (get_logits one_valid_logits () ())"
    by (simp add: get_logits_def one_valid_logits_def)
  have h2: "True \<in> set [True, False, True, False]" by simp
  have v: "BaseActorCritic_get_action_probabilities one_valid_logits () () [True, False, True, False]
             = [Fin (1 / 2), Fin 0, Fin (1 / 2), Fin 0]"
    by (simp add: BaseActorCritic_get_action_probabilities_def masked_probabilities_def Let_def
        where_zero_row_def softmax_row_def where_neg_inf_row_def get_logits_def one_valid_logits_def)
  note t = get_action_probabilities_masked [OF h1 h2]
  from t have a: "Reinforce_get_action_probabilities one_valid_logits () (Unbatched ()) (Arr1 [True, False, True, False])
      = Inr (Arr1 (BaseActorCritic_get_action_probabilities one_valid_logits () () [True, False, True, False]))"
    by (rule conjunct1)
  from t have s: "fl_sum (map snd (filter fst (zip [True, False, True, False]
        (BaseActorCritic_get_action_probabilities one_valid_logits () () [True, False, True, False]))))
       = Fin 1"
    by blast
  from a have a': "Reinforce_get_action_probabilities one_valid_logits () (Unbatched ()) (Arr1 [True, False, True, False])
      = Inr (Arr1 [Fin (1 / 2), Fin 0, Fin (1 / 2), Fin 0])"
    unfolding v .
  show ?thesis
    using h1 h2 a' s by blast
qed

section \<open>Properties of ReinforcePolicy.compute\_loss\<close>

lemma compute_discounted_returns_observation:
  "compute_discounted_returns (t\<lparr>observation := obs\<rparr>) g = compute_discounted_returns t g"
  by (simp add: compute_discounted_returns_def)

lemma Reinforce_probabilities_batched:
  "Reinforce_get_action_probabilities actor params (Batched (ob # rest)) (Arr2 rows)
   = Inr (Arr2 (map (\<lambda>row. masked_probabilities row (get_logits actor params ob)) rows))"
  by (simp add: Reinforce_get_action_probabilities_def Let_def)

lemma Reinforce_compute_loss_first:
  "observation t = ob # rest \<Longrightarrow>
   Reinforce_compute_loss actor g params t =
     (let loss = - fl_mean (map2 (\<lambda>g l. Fin g * l) (compute_discounted_returns t g)
                   (map2 (\<lambda>row a. row ! a)
                      (map (\<lambda>row. map fl_log (masked_probabilities row (get_logits actor params ob)))
                         (action_mask t))
                      (action t)))
      in Inr (loss, [''Actor loss'' \<mapsto> loss]))"
  by (simp add: Reinforce_compute_loss_def Reinforce_probabilities_batched Let_def o_def)

text \<open>
  Claim C10. Called with a batch of observations and a batch of mask rows,
  \<open>ReinforcePolicy.get_action_probabilities\<close> takes the logits of the first observation
  only and combines that one vector with every row of the mask. So the loss of
  \<open>ReinforcePolicy.compute_loss\<close> is built from the logits of the first observation,
  and replacing all the other observations of the batch by anything leaves it unchanged.
\<close>

theorem Reinforce_first_observation_only:
  assumes "observation t = ob # rest"
  shows "Reinforce_get_action_probabilities actor params
           (Batched (observation t)) (Arr2 (action_mask t))
         = Inr (Arr2 (map (\<lambda>row. masked_probabilities row (get_logits actor params ob))
                        (action_mask t)))
       \<and> Reinforce_compute_loss actor g params t =
           (let loss = - fl_mean (map2 (\<lambda>g l. Fin g * l) (compute_discounted_returns t g)
                   (map2 (\<lambda>row a. row ! a)
                      (map (\<lambda>row. map fl_log (masked_probabilities row (get_logits actor params ob)))
                         (action_mask t))
                      (action t)))
            in Inr (loss, [''Actor loss'' \<mapsto> loss]))
       \<and> Reinforce_compute_loss actor g params (t\<lparr>observation := ob # others\<rparr>)
           = Reinforce_compute_loss actor g params t"
proof -
  have "observation (t\<lparr>observation := ob # others\<rparr>) = ob # others" by simp
  then have "Reinforce_compute_loss actor g params (t\<lparr>observation := ob # others\<rparr>)
           = Reinforce_compute_loss actor g params t"
    unfolding Reinforce_compute_loss_first [OF assms]
    by (subst Reinforce_compute_loss_first) (simp_all add: compute_discounted_returns_observation)
  then show ?thesis
    using assms Reinforce_compute_loss_first [OF assms]
    by (simp add: Reinforce_probabilities_batched)
qed

theorem Reinforce_first_observation_only_witness:
  "observation two_observations = 0 # [1]
   \<and> Reinforce_compute_loss two_observations_actor 1 () (two_observations\<lparr>observation := [0, 0]\<rparr>)
       = Reinforce_compute_loss two_observations_actor 1 () two_observations"
proof -
  have h: "observation two_observations = 0 # [1]"
    by (simp add: two_observations_def)
  from Reinforce_first_observation_only [OF h, of two_observations_actor "()" 1 "[0]"]
  have "Reinforce_compute_loss two_observations_actor 1 () (two_observations\<lparr>observation := [0, 0]\<rparr>)
       = Reinforce_compute_loss two_observations_actor 1 () two_observations"
    by blast
  with h show ?thesis by blast
qed

lemma two_observations_returns: "compute_discounted_returns two_observations 1 = [1, 1]"
  by (simp add: compute_discounted_returns_def two_observations_def Let_def)

text \<open>
  Claim C2 fails on the program. On the batch \<open>two_observations\<close> the probability of
  the second row is taken from the logits of the first observation: the program returns
  the loss \<open>ln 2\<close>, where the negative mean of \<open>G[i] * log(pi(a_i | s_i))\<close> with every
  row evaluated on its own observation is \<open>(ln 2 + ln (4/3)) / 2\<close>.
\<close>

theorem Reinforce_compute_loss_not_per_row:
  "Reinforce_compute_loss two_observations_actor 1 () two_observations
     = Inr (Fin (ln 2), [''Actor loss'' \<mapsto> Fin (ln 2)])
   \<and> specified_Reinforce_loss two_observations_actor 1 () two_observations
     = Fin ((ln 2 + ln (4 / 3)) / 2)
   \<and> Fin (ln 2) \<noteq> Fin ((ln 2 + ln (4 / 3)) / 2)"
proof -
  have code: "Reinforce_compute_loss two_observations_actor 1 () two_observations
     = Inr (Fin (ln 2), [''Actor loss'' \<mapsto> Fin (ln 2)])"
    apply (simp add: Reinforce_compute_loss_def Reinforce_get_action_probabilities_def
        two_observations_returns Let_def)
    apply (simp add: two_observations_def two_observations_actor_def get_logits_def
        masked_probabilities_def Let_def where_zero_row_def softmax_row_def
        where_neg_inf_row_def fl_mean_def ln_div)
    done
  have spec: "specified_Reinforce_loss two_observations_actor 1 () two_observations
     = Fin ((ln 2 + ln (4 / 3)) / 2)"
    apply (simp add: specified_Reinforce_loss_def actions_to_probabilities_def
        two_observations_returns Let_def)
    apply (simp add: two_observations_def two_observations_actor_def get_logits_def
        masked_probabilities_def Let_def where_zero_row_def softmax_row_def
        where_neg_inf_row_def fl_mean_def ln_div)
    apply (simp add: field_simps)
    done
  have "ln (4 / 3 :: real) < ln 2"
    by (subst ln_less_cancel_iff) simp_all
  then have "Fin (ln 2) \<noteq> Fin ((ln 2 + ln (4 / 3)) / 2)"
    by simp
  with code spec show ?thesis by blast
qed

section \<open>Properties of the learning rate\<close>

lemma sqrt_small: "(1 / 100000 :: real) powr (1 / 2) < 1 / 100"
proof -
  have "(1 / 100000 :: real) powr (1 / 2) < (1 / 10000) powr (1 / 2)"
    by (rule powr_less_mono2) simp_all
  also have "(1 / 10000 :: real) = (1 / 100) powr 2"
    by (simp add: power2_eq_square)
  also have "((1 / 100 :: real) powr 2) powr (1 / 2) = 1 / 100"
    by (simp add: powr_powr)
  finally show ?thesis .
qed

text \<open>For every positive nominal rate and every positive number \<open>n\<close> of decay steps, the
  rate the program's schedule gives after \<open>n\<close> steps is below a hundredth of the nominal
  rate.\<close>

lemma scheduler_after_decay_steps:
  assumes "0 < lr" and "0 < n"
  shows "learning_rate_scheduler lr (Some (int n)) n < lr / 100"
proof -
  let ?d = "min lr (1 / 100000)"
  let ?p = "(real n - 1 / 2) / real n"
  have d: "0 < ?d" "?d \<le> 1 / 100000" using assms(1) by simp_all
  have n: "1 \<le> real n" using assms(2) by simp
  have eq: "learning_rate_scheduler lr (Some (int n)) n = lr * ?d powr ?p"
    using assms d n by (simp add: learning_rate_scheduler_def exponential_decay_def Let_def)
  have p: "1 / 2 \<le> ?p" using n by (simp add: field_simps)
  have "?d powr ?p \<le> ?d powr (1 / 2)"
    using p d by (intro powr_mono') simp_all
  also have "\<dots> \<le> (1 / 100000) powr (1 / 2)"
    using d by (intro powr_mono2) simp_all
  also have "\<dots> < 1 / 100" by (rule sqrt_small)
  finally have "lr * ?d powr ?p < lr * (1 / 100)"
    using assms(1) by simp
  then show ?thesis unfolding eq by simp
qed

text \<open>
  Claim C6 fails on the program. \<^verbatim>\<open>Network.__init__\<close> passes
  \<^verbatim>\<open>min(learning_rate, 1e-5)\<close> in the position of \<open>decay_rate\<close> and \<open>0.5\<close> in the
  position of \<open>transition_begin\<close>, and no \<open>end_value\<close>. With the nominal rate \<open>1e-3\<close>
  and \<open>lr_decay = 1000\<close> the rate after 1000 steps is below \<open>1e-5\<close>, the floor of the
  claim, where the halving schedule of the claim gives \<open>5e-4\<close>. Without a decay step
  count the rate is the nominal one, as the claim says.
\<close>

theorem learning_rate_scheduler_not_halving:
  "learning_rate_scheduler (1 / 1000) (Some 1000) 1000 < 1 / 100000
   \<and> specified_learning_rate (1 / 1000) (Some 1000) 1000 = 1 / 2000
   \<and> learning_rate_scheduler (1 / 1000) None 1000 = 1 / 1000"
proof -
  have "learning_rate_scheduler (1 / 1000) (Some (int 1000)) 1000 < (1 / 1000) / 100"
    by (rule scheduler_after_decay_steps) simp_all
  then have "learning_rate_scheduler (1 / 1000) (Some 1000) 1000 < 1 / 100000"
    by simp
  moreover have "specified_learning_rate (1 / 1000) (Some 1000) 1000 = 1 / 2000"
    by (simp add: specified_learning_rate_def exponential_decay_def Let_def)
  moreover have "learning_rate_scheduler (1 / 1000) None 1000 = 1 / 1000"
    by (simp add: learning_rate_scheduler_def)
  ultimately show ?thesis by blast
qed

section \<open>Properties of Policy.sample\_action\<close>

lemma mask_sum: "fl_sum (map (\<lambda>m. Fin (of_bool m)) valid) = Fin (real (count_list valid True))"
  by (induction valid) simp_all

lemma count_pos: "True \<in> set valid \<Longrightarrow> 0 < count_list valid True"
  by (induction valid) auto

lemma count_zero: "True \<notin> set valid \<Longrightarrow> count_list valid True = 0"
  by (induction valid) auto

lemma RandomPolicy_forbidden:
  "True \<notin> set valid \<Longrightarrow>
   RandomPolicy_get_action_probabilities params ob valid = replicate (length valid) NaN"
proof -
  have "True \<notin> set valid \<Longrightarrow>
        map (\<lambda>m. Fin (of_bool m) / Fin 0) valid = replicate (length valid) NaN"
    by (induction valid) auto
  then show "True \<notin> set valid \<Longrightarrow>
   RandomPolicy_get_action_probabilities params ob valid = replicate (length valid) NaN"
    by (simp add: RandomPolicy_get_action_probabilities_def mask_sum count_zero)
qed

lemma RandomPolicy_uniform:
  "True \<in> set valid \<Longrightarrow> RandomPolicy_get_action_probabilities params ob valid = uniform_row valid"
  using count_pos [of valid]
  by (simp add: RandomPolicy_get_action_probabilities_def mask_sum uniform_row_def)

lemma renormalize_NaN: "renormalize (replicate (length valid) NaN) valid = replicate (length valid) NaN"
proof -
  have "map2 (\<lambda>p m. p * Fin (of_bool m)) (replicate (length valid) NaN) valid
        = replicate (length valid) NaN"
    by (induction valid) simp_all
  then show ?thesis
    by (simp add: renormalize_def Let_def map_replicate_const)
qed

lemma fl_sum_scaled:
  "fl_sum (map (\<lambda>m. Fin (of_bool m / k)) valid) = Fin (real (count_list valid True) / k)"
  by (induction valid) (simp_all add: add_divide_distrib)

lemma renormalize_uniform:
  assumes "True \<in> set valid"
  shows "renormalize (uniform_row valid) valid = uniform_row valid"
    and "fl_sum (uniform_row valid) = Fin 1"
proof -
  let ?k = "real (count_list valid True)"
  have k: "0 < ?k" using count_pos [OF assms] by simp
  have masked: "map2 (\<lambda>p m. p * Fin (of_bool m)) (map (\<lambda>m. Fin (of_bool m / k)) valid) valid
        = map (\<lambda>m. Fin (of_bool m / k)) valid" for k :: real
    by (induction valid) simp_all
  show total: "fl_sum (uniform_row valid) = Fin 1"
    using k by (simp add: uniform_row_def fl_sum_scaled)
  have "map (\<lambda>p. p / Fin 1) (uniform_row valid) = uniform_row valid"
    by (simp add: uniform_row_def)
  then show "renormalize (uniform_row valid) valid = uniform_row valid"
    using total by (simp add: renormalize_def Let_def masked uniform_row_def)
qed


lemma renormalize_fixed:
  assumes "length xs = length valid"
    and "\<forall>i<length valid. \<not> valid ! i \<longrightarrow> xs ! i = 0"
    and "sum_list xs = 1"
  shows "renormalize (map Fin xs) valid = map Fin xs"
proof -
  have masked: "map2 (\<lambda>p m. p * Fin (of_bool m)) (map Fin xs) valid = map Fin xs"
    using assms(1,2) by (intro nth_equalityI) auto
  have "map (\<lambda>p. p / Fin 1) (map Fin xs) = map Fin xs"
    by simp
  then show ?thesis
    by (simp add: renormalize_def Let_def masked fl_sum_Fin assms(3) del: map_map)
qed

lemma row_weights_scaled:
  "length valid = length logits \<Longrightarrow>
   sum_list (map2 (\<lambda>m l. if m then exp l / s else 0) valid logits)
   = sum_list (row_weights valid logits) / s"
  by (induction valid logits rule: list_induct2) (simp_all add: row_weights_def add_divide_distrib)

lemma renormalize_masked_probabilities:
  assumes "length valid = length logits" and "True \<in> set valid"
  shows "renormalize (masked_probabilities valid logits) valid = masked_probabilities valid logits"
proof -
  let ?S = "sum_list (row_weights valid logits)"
  let ?xs = "map2 (\<lambda>m l. if m then exp l / ?S else 0) valid logits"
  have pos: "0 < ?S" using assms by (rule row_weights_pos)
  have eq: "masked_probabilities valid logits = map Fin ?xs"
    using assms(1) pos by (subst masked_probabilities_eq) (simp_all add: o_def split_def)
  have "renormalize (map Fin ?xs) valid = map Fin ?xs"
  proof (rule renormalize_fixed)
    show "length ?xs = length valid" using assms(1) by simp
    show "\<forall>i<length valid. \<not> valid ! i \<longrightarrow> ?xs ! i = 0" using assms(1) by simp
    show "sum_list ?xs = 1" using pos by (simp add: row_weights_scaled [OF assms(1)])
  qed
  then show ?thesis unfolding eq .
qed

text \<open>
  Claim C7 fails on the program. With the mask \<open>[0, 0, 0, 0]\<close>,
  \<open>RandomPolicy.get_action_probabilities\<close> divides 0 by 0 and returns NaN in every
  entry, the normalisation of \<open>sample_action\<close> keeps NaN in every entry, and
  \<open>sample_action\<close> returns the index its sampler draws, here 0: no error is signalled
  and the caller receives an ordinary action.
\<close>

theorem sample_action_all_zero_mask:
  "RandomPolicy_get_action_probabilities () () [False, False, False, False]
     = [NaN, NaN, NaN, NaN]
   \<and> renormalize [NaN, NaN, NaN, NaN] [False, False, False, False] = [NaN, NaN, NaN, NaN]
   \<and> sample_action first_action RandomPolicy_get_action_probabilities () unit_state ()
         [False, False, False, False] = 0"
  by (simp add: RandomPolicy_get_action_probabilities_def renormalize_def sample_action_def
      first_action_def Let_def)

text \<open>
  Claim C7, amended. With a mask that forbids every action, \<open>sample_action\<close> signals no
  error and hands nothing but an index to its caller: the probabilities of
  \<open>RandomPolicy\<close> are NaN in every entry and the call returns whatever the sampler
  draws from the all-NaN vector. With a mask that allows at least one action, the
  probabilities of \<open>RandomPolicy\<close> are \<open>1/k\<close> at the \<open>k\<close> valid positions and 0
  elsewhere, they sum to 1, and the normalisation hands them unchanged to the sampler;
  the same holds for the masked softmax of \<open>BaseActorCriticPolicy\<close> when the mask is as
  long as the logits.
\<close>

theorem sample_action_mask:
  "(True \<notin> set valid \<longrightarrow>
      RandomPolicy_get_action_probabilities params ob valid = replicate (length valid) NaN
      \<and> sample_action choice RandomPolicy_get_action_probabilities key st ob valid
          = choice key (length valid) (replicate (length valid) NaN))
   \<and> (True \<in> set valid \<longrightarrow>
      RandomPolicy_get_action_probabilities params ob valid = uniform_row valid
      \<and> fl_sum (uniform_row valid) = Fin 1
      \<and> sample_action choice RandomPolicy_get_action_probabilities key st ob valid
          = choice key (length valid) (uniform_row valid))
   \<and> (True \<in> set valid
        \<and> length valid = length (get_logits actor (model_parameters (actor_network_state st)) ob) \<longrightarrow>
      sample_action choice (BaseActorCritic_get_action_probabilities actor) key st ob valid
          = choice key (length valid)
              (BaseActorCritic_get_action_probabilities actor
                 (model_parameters (actor_network_state st)) ob valid))"
proof (intro conjI impI)
  assume none: "True \<notin> set valid"
  then show "RandomPolicy_get_action_probabilities params ob valid = replicate (length valid) NaN"
    by (rule RandomPolicy_forbidden)
  show "sample_action choice RandomPolicy_get_action_probabilities key st ob valid
          = choice key (length valid) (replicate (length valid) NaN)"
    using none by (simp add: sample_action_def Let_def RandomPolicy_forbidden renormalize_NaN)
next
  assume some: "True \<in> set valid"
  then show "RandomPolicy_get_action_probabilities params ob valid = uniform_row valid"
    by (rule RandomPolicy_uniform)
  show "fl_sum (uniform_row valid) = Fin 1"
    using some by (rule renormalize_uniform)
  show "sample_action choice RandomPolicy_get_action_probabilities key st ob valid
          = choice key (length valid) (uniform_row valid)"
  proof -
    have "length (uniform_row valid) = length valid" by (simp add: uniform_row_def)
    then show ?thesis
      using some
      by (simp add: sample_action_def Let_def RandomPolicy_uniform renormalize_uniform)
  qed
next
  let ?ps = "model_parameters (actor_network_state st)"
  assume h: "True \<in> set valid \<and> length valid = length (get_logits actor ?ps ob)"
  then have "renormalize (masked_probabilities valid (get_logits actor ?ps ob)) valid
          = masked_probabilities valid (get_logits actor ?ps ob)"
    by (intro renormalize_masked_probabilities) simp_all
  then show "sample_action choice (BaseActorCritic_get_action_probabilities actor) key st ob valid
          = choice key (length valid)
              (BaseActorCritic_get_action_probabilities actor ?ps ob valid)"
    using h
    by (simp add: sample_action_def Let_def BaseActorCritic_get_action_probabilities_def
        masked_probabilities_length)
qed

theorem sample_action_mask_witness:
  "True \<notin> set [False, False, False, False]
   \<and> RandomPolicy_get_action_probabilities () () [False, False, False, False]
       = replicate (length [False, False, False, False]) NaN
   \<and> True \<in> set [True, False, True, False]
   \<and> length [True, False, True, False]
       = length (get_logits one_valid_logits (model_parameters (actor_network_state unit_state)) ())
   \<and> RandomPolicy_get_action_probabilities () () [True, False, True, False]
       = uniform_row [True, False, True, False]
   \<and> sample_action first_action (BaseActorCritic_get_action_probabilities one_valid_logits)
         () unit_state () [True, False, True, False]
       = first_action () (length [True, False, True, False])
           (BaseActorCritic_get_action_probabilities one_valid_logits
              (model_parameters (actor_network_state unit_state)) () [True, False, True, False])"
proof -
  have h0: "True \<notin> set [False, False, False, False]" by simp
  have h1: "True \<in> set [True, False, True, False]" by simp
  have h2: "length [True, False, True, False]
       = length (get_logits one_valid_logits (model_parameters (actor_network_state unit_state)) ())"
    by (simp add: get_logits_def one_valid_logits_def)
  show ?thesis
    using h0 h1 h2
      sample_action_mask [of "[False, False, False, False]" "()" "()" first_action "()" unit_state
        one_valid_logits]
      sample_action_mask [of "[True, False, True, False]" "()" "()" first_action "()" unit_state
        one_valid_logits]
    by blast
qed

section \<open>The empty batch\<close>

text \<open>
  Claim C8 fails on the program. On the batch without transitions
  \<open>compute_discounted_returns\<close> returns the empty vector: it signals no error.
\<close>

theorem empty_batch_returns_no_error:
  "compute_discounted_returns empty_batch (1 / 2) = []"
  by (simp add: compute_discounted_returns_def empty_batch_def)

text \<open>
  Claim C8, amended. For a batch without transitions and every discount factor,
  \<open>compute_discounted_returns\<close> signals no error and returns the empty vector, which is
  as long as the batch. The program has no error of its own for the empty batch.
\<close>

theorem empty_batch_behaviour:
  "reward t = [] \<longrightarrow>
     compute_discounted_returns t g = []
     \<and> length (compute_discounted_returns t g) = length (reward t)"
  by (simp add: compute_discounted_returns_def)

theorem empty_batch_behaviour_witness:
  "reward empty_batch = []
   \<and> compute_discounted_returns empty_batch 1 = []
   \<and> length (compute_discounted_returns empty_batch 1) = length (reward empty_batch)"
proof -
  have h: "reward empty_batch = []"
    by (simp add: empty_batch_def)
  show ?thesis
    using h empty_batch_behaviour [of empty_batch 1] by blast
qed

section \<open>Properties of ActorCriticPolicy.compute\_loss\<close>

lemma upt_two: "[0..<2] = [0, 1]"
  by (simp add: upt_rec)

lemma one_valid_logits_one_hot: "BaseActorCritic_get_action_probabilities one_valid_logits p ob [True, False, False, False]
   = [Fin 1, Fin 0, Fin 0, Fin 0]"
  by (simp add: BaseActorCritic_get_action_probabilities_def masked_probabilities_def Let_def
      where_zero_row_def softmax_row_def where_neg_inf_row_def get_logits_def one_valid_logits_def)

lemma one_valid_logits_two_valid: "BaseActorCritic_get_action_probabilities one_valid_logits p ob [True, True, False, False]
   = [Fin (1 / 2), Fin (1 / 2), Fin 0, Fin 0]"
  by (simp add: BaseActorCritic_get_action_probabilities_def masked_probabilities_def Let_def
      where_zero_row_def softmax_row_def where_neg_inf_row_def get_logits_def one_valid_logits_def)

text \<open>On a batch of one transition nothing is stretched, and the program computes the
  loss of the claim.\<close>

lemma ActorCritic_single_transition:
  assumes "observation t = [ob]" "next_observation t = [ob']" "reward t = [r]" "done_flag t = [d]"
    and "get_logits critic (snd ps) ob = [v]" "get_logits critic (snd ps) ob' = [v']"
  shows "fst (ActorCritic_compute_loss actor critic g ps t)
         = fst (specified_ActorCritic_loss actor critic g ps t)"
  using assms
  by (simp add: ActorCritic_compute_loss_def specified_ActorCritic_loss_def Let_def
      get_batch_logits_def broadcast_def fl_mean_def)

text \<open>
  Claim C3 fails on the program. With a critic whose output has shape \<open>[1]\<close>, the values
  have shape \<open>[batch_size, 1]\<close> and broadcast against the rewards and termination
  indicators of shape \<open>[batch_size]\<close>: both advantages become matrices that pair the
  value of every transition with the reward of every transition, and the means run over
  all the pairs. On the batch \<open>two_values\<close> the critic is exact and the losses of the
  claim are all 0; the program returns the critic loss \<open>1/4\<close>, the actor loss
  \<open>- ln 2 / 4\<close> and their sum. That the total is the sum of the two losses holds.
\<close>

theorem ActorCritic_compute_loss_cross_terms:
  "ActorCritic_compute_loss one_valid_logits two_values_critic 1 ((), ()) two_values
     = (Fin (1 / 4 - ln 2 / 4),
        [''Actor loss'' \<mapsto> Fin (- (ln 2 / 4)), ''Critic loss'' \<mapsto> Fin (1 / 4)])
   \<and> specified_ActorCritic_loss one_valid_logits two_values_critic 1 ((), ()) two_values
     = (Fin 0, Fin 0, Fin 0)
   \<and> Fin (1 / 4 - ln 2 / 4) \<noteq> Fin 0"
proof -
  have code: "ActorCritic_compute_loss one_valid_logits two_values_critic 1 ((), ()) two_values
     = (Fin (1 / 4 - ln 2 / 4),
        [''Actor loss'' \<mapsto> Fin (- (ln 2 / 4)), ''Critic loss'' \<mapsto> Fin (1 / 4)])"
    apply (simp add: ActorCritic_compute_loss_def Let_def)
    apply (simp add: two_values_def upt_two one_valid_logits_one_hot one_valid_logits_two_valid)
    apply (simp add: get_batch_logits_def get_logits_def two_values_critic_def broadcast_def
        fl_mean_def ln_div power2_eq_square)
    done
  have spec: "specified_ActorCritic_loss one_valid_logits two_values_critic 1 ((), ()) two_values
     = (Fin 0, Fin 0, Fin 0)"
    apply (simp add: specified_ActorCritic_loss_def Let_def)
    apply (simp add: two_values_def upt_two one_valid_logits_one_hot one_valid_logits_two_valid)
    apply (simp add: get_logits_def two_values_critic_def fl_mean_def ln_div)
    done
  have "ln (2::real) < 1" by (rule ln_2_less_1)
  then have "Fin (1 / 4 - ln 2 / 4) \<noteq> Fin 0" by simp
  with code spec show ?thesis by blast
qed

section \<open>Properties of ReinforceBaselinePolicy.compute\_loss\<close>

text \<open>
  Claim C5 fails on the program for the critic of \<open>ReinforceBaselinePolicy\<close>. The value
  that \<open>compute_loss\<close> returns is the differentiated function taken where the stopped
  parameters are the critic's parameters; and the differentiated function does not depend
  on the critic's parameters, whatever the batch: both the actor loss and the
  \<open>(G - V)\<^sup>2\<close> loss of the value network read the critic under \<open>stop_gradient\<close> only.
  Its derivative with respect to a critic parameter is 0 (stated for a critic with one
  real parameter and any real-valued reading \<open>r\<close> of the loss), so the step of the
  optimizer that \<open>update\<close> takes for the critic starts from a zero gradient.
\<close>

theorem ReinforceBaseline_critic_not_trained:
  "ReinforceBaseline_compute_loss actor critic g (ap, cp) t
     = ReinforceBaseline_differentiated_loss actor critic g (ap, cp) cp t
   \<and> ReinforceBaseline_differentiated_loss actor critic g (ap, cp') stopped t
     = ReinforceBaseline_differentiated_loss actor critic g (ap, cp) stopped t
   \<and> ((\<lambda>x. r (fst (ReinforceBaseline_differentiated_loss actor critic' g (ap, x) stopped' t)))
        has_real_derivative 0) (at x0)"
proof -
  have "(\<lambda>x. r (fst (ReinforceBaseline_differentiated_loss actor critic' g (ap, x) stopped' t)))
      = (\<lambda>x. r (fst (ReinforceBaseline_differentiated_loss actor critic' g (ap, x0) stopped' t)))"
    by (simp add: ReinforceBaseline_differentiated_loss_def)
  then have "((\<lambda>x. r (fst (ReinforceBaseline_differentiated_loss actor critic' g (ap, x) stopped' t)))
        has_real_derivative 0) (at x0)"
    by simp
  moreover have "ReinforceBaseline_compute_loss actor critic g (ap, cp) t
     = ReinforceBaseline_differentiated_loss actor critic g (ap, cp) cp t"
    by (simp add: ReinforceBaseline_compute_loss_def ReinforceBaseline_differentiated_loss_def)
  moreover have "ReinforceBaseline_differentiated_loss actor critic g (ap, cp') stopped t
     = ReinforceBaseline_differentiated_loss actor critic g (ap, cp) stopped t"
    by (simp add: ReinforceBaseline_differentiated_loss_def)
  ultimately show ?thesis by (intro conjI)
qed

section \<open>Properties of RandomPolicy\<close>

text \<open>
  Claim C9. \<open>RandomPolicy.update\<close> returns the state it is given, for every state and
  every batch, so applying it any number of times leaves the state unchanged; and
  \<open>RandomPolicy.compute_loss\<close> returns the loss 0 with an empty mapping of metrics.
\<close>

theorem RandomPolicy_update_identity:
  "RandomPolicy_update state transitions = state
   \<and> ((\<lambda>s. RandomPolicy_update s transitions) ^^ n) state = state
   \<and> RandomPolicy_compute_loss parameters batch = (Fin 0, Map.empty)"
proof -
  have "((\<lambda>s. RandomPolicy_update s transitions) ^^ n) state = state"
    by (induction n) (simp_all add: RandomPolicy_update_def)
  then show ?thesis
    by (simp add: RandomPolicy_update_def RandomPolicy_compute_loss_def)
qed

end
